theory Spec2Isabelle
  imports Main
begin

section \<open>JavaScript values\<close>

text \<open>
  The values that \<^verbatim>\<open>projects.js\<close> inspects. A number is either an integer or a
  non-integer given by its canonical rendering (\<^verbatim>\<open>1.5\<close>, \<^verbatim>\<open>NaN\<close>, \<^verbatim>\<open>Infinity\<close>);
  \<^verbatim>\<open>+0\<close> and \<^verbatim>\<open>-0\<close> are both \<open>Integer 0\<close>. An object carries the identity of its
  prototype and its own enumerable properties in \<^verbatim>\<open>for ... in\<close> order; a
  \<^verbatim>\<open>new String(s)\<close> wrapper is a value of its own. Inherited properties, accessors
  and object identity are not modelled.
\<close>

datatype proto = ObjectPrototype | OtherPrototype

datatype jsnum = Integer int | NonInteger string

datatype jsval =
    Undefined
  | Null
  | Bool bool
  | Num jsnum
  | Str string
  | StringObject string
  | Obj proto "(string \<times> jsval) list"

text \<open>Decimal rendering of integers, as \<^verbatim>\<open>String(n)\<close> gives it below \<open>10^21\<close>.\<close>

definition digit :: "nat \<Rightarrow> char" where
  "digit d = ''0123456789'' ! d"

function show_nat :: "nat \<Rightarrow> string" where
  "show_nat n = (if n < 10 then [digit n] else show_nat (n div 10) @ [digit (n mod 10)])"
  by pat_completeness auto
termination
  by (relation "measure id") auto

declare show_nat.simps [simp del]

definition show_int :: "int \<Rightarrow> string" where
  "show_int i = (if i < 0 then CHR ''-'' # show_nat (nat (- i)) else show_nat (nat i))"

definition digit_val :: "char \<Rightarrow> nat" where
  "digit_val c = of_char c - 48"

definition read_nat :: "string \<Rightarrow> nat" where
  "read_nat s = foldl (\<lambda>a c. 10 * a + digit_val c) 0 s"

definition Number_toString :: "jsnum \<Rightarrow> string" where
  "Number_toString n = (case n of Integer i \<Rightarrow> show_int i | NonInteger s \<Rightarrow> s)"

text \<open>\<^verbatim>\<open>!x\<close> is true exactly for the falsy values.\<close>

definition truthy :: "jsval \<Rightarrow> bool" where
  "truthy v = (case v of
      Undefined \<Rightarrow> False
    | Null \<Rightarrow> False
    | Bool b \<Rightarrow> b
    | Num (Integer i) \<Rightarrow> i \<noteq> 0
    | Num (NonInteger s) \<Rightarrow> s \<noteq> ''NaN''
    | Str s \<Rightarrow> s \<noteq> []
    | StringObject s \<Rightarrow> True
    | Obj p ps \<Rightarrow> True)"

definition typeof :: "jsval \<Rightarrow> string" where
  "typeof v = (case v of
      Undefined \<Rightarrow> ''undefined''
    | Null \<Rightarrow> ''object''
    | Bool b \<Rightarrow> ''boolean''
    | Num n \<Rightarrow> ''number''
    | Str s \<Rightarrow> ''string''
    | StringObject s \<Rightarrow> ''object''
    | Obj p ps \<Rightarrow> ''object'')"

text \<open>
  \<^verbatim>\<open>Object.getPrototypeOf(v) === Object.prototype\<close>, for a truthy \<open>v\<close>: the
  prototype of a primitive is that of its wrapper class, never \<^verbatim>\<open>Object.prototype\<close>.
\<close>

definition has_Object_prototype :: "jsval \<Rightarrow> bool" where
  "has_Object_prototype v = (case v of Obj p ps \<Rightarrow> p = ObjectPrototype | _ \<Rightarrow> False)"

definition instanceof_String :: "jsval \<Rightarrow> bool" where
  "instanceof_String v = (case v of StringObject s \<Rightarrow> True | _ \<Rightarrow> False)"

definition Number_isInteger :: "jsval \<Rightarrow> bool" where
  "Number_isInteger v = (case v of Num (Integer i) \<Rightarrow> True | _ \<Rightarrow> False)"

text \<open>
  An array index is the decimal rendering of a number below \<open>2^32 - 1\<close>. The
  characters of a string are its index properties.
\<close>

definition is_array_index :: "string \<Rightarrow> bool" where
  "is_array_index k = (k \<noteq> [] \<and> show_nat (read_nat k) = k \<and> read_nat k < 4294967295)"

definition char_at :: "string \<Rightarrow> string \<Rightarrow> jsval" where
  "char_at s k = (if is_array_index k \<and> read_nat k < length s then Str [s ! read_nat k]
                  else Undefined)"

text \<open>
  Reading \<^verbatim>\<open>v.k\<close> or \<^verbatim>\<open>v[k]\<close>. It throws on \<^verbatim>\<open>undefined\<close> and \<^verbatim>\<open>null\<close>
  (\<open>None\<close>); a missing property reads as \<^verbatim>\<open>undefined\<close>. The only keys the
  program reads by name are field names, so \<^verbatim>\<open>length\<close> is left out.
\<close>

definition get_own :: "(string \<times> jsval) list \<Rightarrow> string \<Rightarrow> jsval" where
  "get_own ps k = (case map_of ps k of None \<Rightarrow> Undefined | Some v \<Rightarrow> v)"

definition get_prop :: "jsval \<Rightarrow> string \<Rightarrow> jsval option" where
  "get_prop v k = (case v of
      Undefined \<Rightarrow> None
    | Null \<Rightarrow> None
    | Bool b \<Rightarrow> Some Undefined
    | Num n \<Rightarrow> Some Undefined
    | Str s \<Rightarrow> Some (char_at s k)
    | StringObject s \<Rightarrow> Some (char_at s k)
    | Obj p ps \<Rightarrow> Some (get_own ps k))"

text \<open>The same read where the base is known not to be \<^verbatim>\<open>undefined\<close> or \<^verbatim>\<open>null\<close>.\<close>

definition field :: "jsval \<Rightarrow> string \<Rightarrow> jsval" where
  "field v k = (case get_prop v k of None \<Rightarrow> Undefined | Some x \<Rightarrow> x)"

section \<open>Job validation\<close>

text \<open>
  \<^verbatim>\<open>isValid(job, compiled)\<close>, check by check. The guard \<^verbatim>\<open>!job\<close> comes first, so no
  property of \<^verbatim>\<open>undefined\<close> or \<^verbatim>\<open>null\<close> is ever read.
\<close>

definition is_string :: "jsval \<Rightarrow> bool" where
  "is_string v = (typeof v = ''string'' \<or> instanceof_String v)"

definition isValid :: "jsval \<Rightarrow> bool \<Rightarrow> bool" where
  "isValid job compiled =
    (if \<not> truthy job then False
     else if \<not> has_Object_prototype job then False
     else if \<not> is_string (field job ''author'') then False
     else if \<not> is_string (field job ''repo'') then False
     else if \<not> is_string (field job ''branch'') then False
     else if compiled \<and> \<not> Number_isInteger (field job ''id'') then False
     else if compiled \<and> typeof (field job ''success'') \<noteq> ''boolean'' then False
     else True)"

section \<open>Property assignment and enumeration\<close>

text \<open>
  Own property keys are kept in the order \<^verbatim>\<open>for ... in\<close> visits them: array
  indices in ascending order first, then the other keys in the order of their creation.
  Assigning to an existing property keeps its place.
\<close>

type_synonym props = "(string \<times> jsval) list"

fun update_own :: "string \<Rightarrow> jsval \<Rightarrow> props \<Rightarrow> props" where
  "update_own k x [] = []"
| "update_own k x ((k', y) # ps) =
     (if k' = k then (k, x) # ps else (k', y) # update_own k x ps)"

fun insert_index :: "string \<Rightarrow> jsval \<Rightarrow> props \<Rightarrow> props" where
  "insert_index k x [] = [(k, x)]"
| "insert_index k x ((k', y) # ps) =
     (if is_array_index k' \<and> read_nat k' < read_nat k then (k', y) # insert_index k x ps
      else (k, x) # (k', y) # ps)"

definition set_own :: "props \<Rightarrow> string \<Rightarrow> jsval \<Rightarrow> props" where
  "set_own ps k x =
     (if k \<in> fst ` set ps then update_own k x ps
      else if is_array_index k then insert_index k x ps
      else ps @ [(k, x)])"

text \<open>
  The assignment \<^verbatim>\<open>v[k] = x\<close> in a module that is not in strict mode: it throws on
  \<^verbatim>\<open>undefined\<close> and \<^verbatim>\<open>null\<close> (\<open>None\<close>) and is silently dropped on a primitive. The
  program only assigns to values that come from \<^verbatim>\<open>JSON.parse\<close> or from an object
  literal, so a string wrapper is never a target; it is left as it is.
\<close>

definition set_prop :: "jsval \<Rightarrow> string \<Rightarrow> jsval \<Rightarrow> jsval option" where
  "set_prop v k x = (case v of
      Undefined \<Rightarrow> None
    | Null \<Rightarrow> None
    | Obj p ps \<Rightarrow> Some (Obj p (set_own ps k x))
    | _ \<Rightarrow> Some v)"

definition for_in_keys :: "jsval \<Rightarrow> string list" where
  "for_in_keys v = (case v of
      Obj p ps \<Rightarrow> map fst ps
    | Str s \<Rightarrow> map show_nat [0..<length s]
    | StringObject s \<Rightarrow> map show_nat [0..<length s]
    | _ \<Rightarrow> [])"

text \<open>
  \<^verbatim>\<open>a === b\<close>. Primitives are compared by value and \<^verbatim>\<open>NaN\<close> equals nothing; objects
  are compared by reference, and two object values of this model never alias.
\<close>

definition primitive :: "jsval \<Rightarrow> bool" where
  "primitive v = (case v of StringObject s \<Rightarrow> False | Obj p ps \<Rightarrow> False | _ \<Rightarrow> True)"

definition strict_eq :: "jsval \<Rightarrow> jsval \<Rightarrow> bool" where
  "strict_eq a b = (primitive a \<and> a = b \<and> a \<noteq> Num (NonInteger ''NaN''))"

text \<open>
  String conversion, as \<^verbatim>\<open>+\<close> with a string and a computed property key apply it. An
  object without a \<^verbatim>\<open>toString\<close> of its own renders as \<^verbatim>\<open>[object Object]\<close>.
\<close>

definition ToString :: "jsval \<Rightarrow> string" where
  "ToString v = (case v of
      Undefined \<Rightarrow> ''undefined''
    | Null \<Rightarrow> ''null''
    | Bool b \<Rightarrow> (if b then ''true'' else ''false'')
    | Num n \<Rightarrow> Number_toString n
    | Str s \<Rightarrow> s
    | StringObject s \<Rightarrow> s
    | Obj p ps \<Rightarrow> ''[object Object]'')"

section \<open>The ledger update of addBuild\<close>

datatype error = Message string | TypeError | SyntaxError | IOError string

text \<open>
  The inner loop of \<^verbatim>\<open>// Apply any Tags\<close> for one entry \<open>r = builds[build]\<close>: the
  tag names still to visit are \<open>ts\<close>. Reading \<^verbatim>\<open>.sha\<close> of \<^verbatim>\<open>null\<close> throws.
\<close>

fun scan_tags :: "jsval \<Rightarrow> string list \<Rightarrow> jsval \<Rightarrow> jsval option" where
  "scan_tags tags [] r = Some r"
| "scan_tags tags (t # ts) r =
     (case get_prop r ''sha'' of
        None \<Rightarrow> None
      | Some sha \<Rightarrow>
          if strict_eq (field tags t) sha then
            (case set_prop r ''candidate'' (Str ''RELEASE'') of
               None \<Rightarrow> None
             | Some r' \<Rightarrow> set_prop r' ''tag'' (Str t))
          else scan_tags tags ts r)"

text \<open>
  The entry is mutated in place; in a model of values the mutated entry is put back
  under its key. An entry of a primitive \<open>builds\<close> is a primitive, which stays as it is.
\<close>

definition put_back :: "jsval \<Rightarrow> string \<Rightarrow> jsval \<Rightarrow> jsval" where
  "put_back b k r = (case b of Obj p ps \<Rightarrow> Obj p (update_own k r ps) | _ \<Rightarrow> b)"

fun apply_tags :: "jsval \<Rightarrow> string list \<Rightarrow> jsval \<Rightarrow> jsval option" where
  "apply_tags tags [] b = Some b"
| "apply_tags tags (k # ks) b =
     (case scan_tags tags (for_in_keys tags) (field b k) of
        None \<Rightarrow> None
      | Some r \<Rightarrow> apply_tags tags ks (put_back b k r))"

definition build_record :: "jsval \<Rightarrow> jsval option" where
  "build_record job =
     (let commit = field job ''commit'' in
      case get_prop commit ''sha'' of
        None \<Rightarrow> None
      | Some sha \<Rightarrow> Some (Obj ObjectPrototype
          [(''id'', field job ''id''),
           (''sha'', sha),
           (''date'', field commit ''date''),
           (''timestamp'', field commit ''timestamp''),
           (''message'', field commit ''message''),
           (''author'', field commit ''author''),
           (''avatar'', field commit ''avatar''),
           (''license'', field job ''license''),
           (''candidate'', Str ''DEVELOPMENT''),
           (''status'', Str (if truthy (field job ''success'') then ''SUCCESS''
                             else ''FAILURE''))]))"

text \<open>
  Lines 64 to 90 of \<^verbatim>\<open>append\<close>, on the ledger in memory: \<open>Inl\<close> is the exception
  thrown, \<open>Inr\<close> the ledger handed to \<^verbatim>\<open>JSON.stringify\<close>. Logging only prints and is
  left out.
\<close>

definition appended :: "jsval \<Rightarrow> jsval \<Rightarrow> error + jsval" where
  "appended builds job =
     (case build_record job of
        None \<Rightarrow> Inl TypeError
      | Some r \<Rightarrow>
     (case set_prop builds (ToString (field job ''id'')) r of
        None \<Rightarrow> Inl TypeError
      | Some b1 \<Rightarrow>
     (case (if truthy (field job ''success'')
            then set_prop b1 ''last_successful'' (field job ''id'') else Some b1) of
        None \<Rightarrow> Inl TypeError
      | Some b2 \<Rightarrow>
     (case set_prop b2 ''latest'' (field job ''id'') of
        None \<Rightarrow> Inl TypeError
      | Some b3 \<Rightarrow>
     (case apply_tags (field job ''tags'') (for_in_keys b3) b3 of
        None \<Rightarrow> Inl TypeError
      | Some b4 \<Rightarrow> Inr b4)))))"

section \<open>The file system and the JSON codec\<close>

text \<open>
  Node's \<^verbatim>\<open>fs\<close>, \<^verbatim>\<open>path\<close> and \<^verbatim>\<open>JSON\<close> are not part of the repository. They are
  parameters: \<open>'w\<close> is the state of the file system, \<open>'c\<close> the text of a file. An
  operation that can fail returns the error it fails with; one that changes the file
  system returns the new state, also when it fails. \<open>path_resolve rel\<close> stands for
  \<^verbatim>\<open>path.resolve(__dirname, rel)\<close>, and \<open>JSON_parse\<close> returns \<open>None\<close> where
  \<^verbatim>\<open>JSON.parse\<close> throws.
\<close>

type_synonym path = string

datatype kind = IsFile | IsDirectory | IsNeither

record ('w, 'c) sys =
  path_resolve :: "string \<Rightarrow> path"
  existsSync :: "'w \<Rightarrow> path \<Rightarrow> bool"
  readFile :: "'w \<Rightarrow> path \<Rightarrow> string + 'c"
  writeFile :: "'w \<Rightarrow> path \<Rightarrow> 'c \<Rightarrow> string option \<times> 'w"
  JSON_parse :: "'c \<Rightarrow> jsval option"
  JSON_stringify :: "jsval \<Rightarrow> 'c"
  stat :: "'w \<Rightarrow> path \<Rightarrow> string + kind"
  unlink :: "'w \<Rightarrow> path \<Rightarrow> string option \<times> 'w"
  readdir :: "'w \<Rightarrow> path \<Rightarrow> string + string list"
  rmdir :: "'w \<Rightarrow> path \<Rightarrow> string option \<times> 'w"

section \<open>addBuild\<close>

text \<open>
  What the promise returned by \<^verbatim>\<open>addBuild\<close> comes to. \<open>NeverSettled e\<close>: the
  exception \<open>e\<close> was thrown inside a callback given to \<^verbatim>\<open>then\<close>; it rejects the promise
  that \<^verbatim>\<open>then\<close> returned, which nobody holds, and neither \<^verbatim>\<open>resolve\<close> nor \<^verbatim>\<open>reject\<close>
  of the promise of \<^verbatim>\<open>addBuild\<close> is ever called. An exception thrown in the executor
  of \<^verbatim>\<open>new Promise\<close> itself rejects that promise.
\<close>

datatype result = Resolved | Rejected error | NeverSettled error

datatype 'c call = ExistsSync path | ReadFile path | WriteFile path 'c

record ('w, 'c) run =
  result :: result
  after :: 'w
  calls :: "'c call list"

definition ledger_file :: "('w, 'c) sys \<Rightarrow> jsval \<Rightarrow> path" where
  "ledger_file sys job = path_resolve sys
     (''../'' @ ToString (field job ''author'') @ ''/'' @ ToString (field job ''repo'')
        @ ''/'' @ ToString (field job ''branch'') @ ''/builds.json'')"

text \<open>
  The closure \<^verbatim>\<open>append\<close>: the update in memory, then \<^verbatim>\<open>fs.writeFile\<close>, whose
  outcome settles the promise. \<open>Inl e\<close>: it threw \<open>e\<close>, before any write. \<open>made\<close> are
  the file system calls made before it.
\<close>

definition append ::
  "('w, 'c) sys \<Rightarrow> 'w \<Rightarrow> path \<Rightarrow> 'c call list \<Rightarrow> jsval \<Rightarrow> jsval \<Rightarrow> error + ('w, 'c) run" where
  "append sys w file made builds job =
     (case appended builds job of
        Inl e \<Rightarrow> Inl e
      | Inr b \<Rightarrow>
          (let text = JSON_stringify sys b; (r, w') = writeFile sys w file text
           in Inr \<lparr>result = (case r of None \<Rightarrow> Resolved | Some e \<Rightarrow> Rejected (IOError e)),
                   after = w', calls = made @ [WriteFile file text]\<rparr>))"

definition addBuild :: "('w, 'c) sys \<Rightarrow> 'w \<Rightarrow> jsval \<Rightarrow> ('w, 'c) run" where
  "addBuild sys w job =
     (if \<not> isValid job True
      then \<lparr>result = Rejected (Message ''Invalid Job''), after = w, calls = []\<rparr>
      else
        let file = ledger_file sys job; builds = Obj ObjectPrototype [] in
        if existsSync sys w file then
          (case readFile sys w file of
             Inr data \<Rightarrow>
               (case JSON_parse sys data of
                  None \<Rightarrow> \<lparr>result = NeverSettled SyntaxError, after = w,
                            calls = [ExistsSync file, ReadFile file]\<rparr>
                | Some parsed \<Rightarrow>
                    (case append sys w file [ExistsSync file, ReadFile file] parsed job of
                       Inl e \<Rightarrow> \<lparr>result = NeverSettled e, after = w,
                                  calls = [ExistsSync file, ReadFile file]\<rparr>
                     | Inr r \<Rightarrow> r))
           | Inl err \<Rightarrow>
               (case append sys w file [ExistsSync file, ReadFile file] builds job of
                  Inl e \<Rightarrow> \<lparr>result = NeverSettled e, after = w,
                             calls = [ExistsSync file, ReadFile file]\<rparr>
                | Inr r \<Rightarrow> r))
        else
          (case append sys w file [ExistsSync file] builds job of
             Inl e \<Rightarrow> \<lparr>result = Rejected e, after = w, calls = [ExistsSync file]\<rparr>
           | Inr r \<Rightarrow> r))"

text \<open>Calls made one after the other, each on the file system the previous one left.\<close>

fun addBuilds :: "('w, 'c) sys \<Rightarrow> 'w \<Rightarrow> jsval list \<Rightarrow> 'w" where
  "addBuilds sys w [] = w"
| "addBuilds sys w (job # jobs) = addBuilds sys (after (addBuild sys w job)) jobs"

section \<open>clearFolder and clearWorkspace\<close>

text \<open>
  \<^verbatim>\<open>clearFolder\<close> starts asynchronous calls and returns; their callbacks run later,
  one at a time and in an order the program does not choose. The state of that
  computation: the calls in flight, each with the invocation of \<^verbatim>\<open>clearFolder\<close> it
  belongs to; the promise of every invocation; for an invocation that has listed its
  directory, the variables \<^verbatim>\<open>file\<close>, \<^verbatim>\<open>length\<close> and \<^verbatim>\<open>index\<close> of its closure; and for
  every invocation the directories waiting on its promise through \<^verbatim>\<open>then(next, cancel)\<close>,
  the calling one first. Invocation \<open>0\<close> is the one whose promise the caller holds. A
  file system call takes effect when it completes, just before its callback runs.
\<close>

datatype request = Stat path | Unlink path | Readdir path | Rmdir path

datatype status = Pending | Fulfilled | Failed error

datatype event = Query path | Call nat request | Settle nat status

record 'w loop =
  world :: 'w
  pending :: "(nat \<times> request) list"
  promise :: "nat \<Rightarrow> status"
  callers :: "nat \<Rightarrow> nat list"
  frame :: "nat \<Rightarrow> (path \<times> nat \<times> nat) option"
  fresh :: nat
  trace :: "event list"

definition issue :: "nat \<Rightarrow> request \<Rightarrow> 'w loop \<Rightarrow> 'w loop" where
  "issue i r s = s\<lparr>pending := pending s @ [(i, r)], trace := trace s @ [Call i r]\<rparr>"

text \<open>
  \<^verbatim>\<open>check()\<close> of directory \<open>p\<close>: when every child has reported success, remove the
  directory.
\<close>

definition check :: "nat \<Rightarrow> 'w loop \<Rightarrow> bool \<times> 'w loop" where
  "check p s = (case frame s p of
      None \<Rightarrow> (False, s)
    | Some (file, len, idx) \<Rightarrow>
        if len = idx then (True, issue p (Rmdir file) s) else (False, s))"

definition next_child :: "nat \<Rightarrow> 'w loop \<Rightarrow> 'w loop" where
  "next_child p s = (case frame s p of
      None \<Rightarrow> s
    | Some (file, len, idx) \<Rightarrow>
        snd (check p (s\<lparr>frame := (frame s)(p \<mapsto> (file, len, Suc idx))\<rparr>)))"

text \<open>
  \<^verbatim>\<open>resolve()\<close> of invocation \<open>i\<close>. A settled promise stays as it is; otherwise the
  reaction \<^verbatim>\<open>next\<close> of the calling directory runs.
\<close>

definition resolve :: "nat \<Rightarrow> 'w loop \<Rightarrow> 'w loop" where
  "resolve i s =
     (if promise s i \<noteq> Pending then s
      else
        let s' = s\<lparr>promise := (promise s)(i := Fulfilled),
                    trace := trace s @ [Settle i Fulfilled]\<rparr>
        in case callers s i of [] \<Rightarrow> s' | p # ps \<Rightarrow> next_child p s')"

text \<open>
  \<^verbatim>\<open>reject(e)\<close> along a chain of invocations, each waiting on the one before it: the
  reaction \<^verbatim>\<open>cancel\<close> of the waiting directory rejects that directory's own promise
  with the same error (its assignment \<^verbatim>\<open>i = length\<close> comes after the loop has ended and
  changes nothing). A promise that is already settled stops the chain.
\<close>

fun rejects :: "nat list \<Rightarrow> error \<Rightarrow> 'w loop \<Rightarrow> 'w loop" where
  "rejects [] e s = s"
| "rejects (i # ps) e s =
     (if promise s i \<noteq> Pending then s
      else rejects ps e (s\<lparr>promise := (promise s)(i := Failed e),
                            trace := trace s @ [Settle i (Failed e)]\<rparr>))"

definition reject :: "nat \<Rightarrow> error \<Rightarrow> 'w loop \<Rightarrow> 'w loop" where
  "reject i e s = rejects (i # callers s i) e s"

text \<open>
  One turn of the \<^verbatim>\<open>for\<close> loop in directory \<open>p\<close>: \<^verbatim>\<open>clearFolder\<close> on the child,
  whose executor calls \<^verbatim>\<open>FileSystem.stat\<close>, and \<^verbatim>\<open>then(next, cancel)\<close> on its promise.
\<close>

definition spawn :: "nat \<Rightarrow> path \<Rightarrow> 'w loop \<Rightarrow> string \<Rightarrow> 'w loop" where
  "spawn p file s name =
     (let c = fresh s
      in issue c (Stat (file @ ''/'' @ name))
           (s\<lparr>fresh := Suc c, callers := (callers s)(c := p # callers s p)\<rparr>))"

text \<open>The callback of a completed call.\<close>

definition complete :: "('w, 'c) sys \<Rightarrow> nat \<Rightarrow> request \<Rightarrow> 'w loop \<Rightarrow> 'w loop" where
  "complete sys i r s = (case r of
      Stat file \<Rightarrow>
        (case stat sys (world s) file of
           Inl error \<Rightarrow> reject i (IOError error) s
         | Inr IsFile \<Rightarrow> issue i (Unlink file) s
         | Inr IsDirectory \<Rightarrow> issue i (Readdir file) s
         | Inr IsNeither \<Rightarrow> s)
    | Unlink file \<Rightarrow>
        (let (err, w') = unlink sys (world s) file; s' = s\<lparr>world := w'\<rparr>
         in case err of Some e \<Rightarrow> reject i (IOError e) s' | None \<Rightarrow> resolve i s')
    | Readdir file \<Rightarrow>
        (case readdir sys (world s) file of
           Inl err \<Rightarrow> reject i (IOError err) s
         | Inr files \<Rightarrow>
             (let (removing, s') =
                    check i (s\<lparr>frame := (frame s)(i \<mapsto> (file, length files, 0))\<rparr>)
              in if \<not> removing then foldl (spawn i file) s' files else s'))
    | Rmdir file \<Rightarrow>
        (let (err, w') = rmdir sys (world s) file; s' = s\<lparr>world := w'\<rparr>
         in case err of Some e \<Rightarrow> reject i (IOError e) s' | None \<Rightarrow> resolve i s'))"

text \<open>
  A step completes the \<open>k\<close>-th call in flight; a schedule is the list of these
  choices.
\<close>

definition step :: "('w, 'c) sys \<Rightarrow> 'w loop \<Rightarrow> nat \<Rightarrow> 'w loop" where
  "step sys s k =
     (if k < length (pending s)
      then case pending s ! k of (i, r) \<Rightarrow>
             complete sys i r (s\<lparr>pending := take k (pending s) @ drop (Suc k) (pending s)\<rparr>)
      else s)"

definition run :: "('w, 'c) sys \<Rightarrow> 'w loop \<Rightarrow> nat list \<Rightarrow> 'w loop" where
  "run sys s ks = foldl (step sys) s ks"

definition idle :: "'w \<Rightarrow> 'w loop" where
  "idle w = \<lparr>world = w, pending = [], promise = (\<lambda>i. Pending), callers = (\<lambda>i. []),
             frame = (\<lambda>i. None), fresh = 1, trace = []\<rparr>"

definition clearFolder :: "('w, 'c) sys \<Rightarrow> 'w \<Rightarrow> path \<Rightarrow> 'w loop" where
  "clearFolder sys w file = issue 0 (Stat file) (idle w)"

definition Promise_reject :: "'w \<Rightarrow> error \<Rightarrow> 'w loop" where
  "Promise_reject w e = (idle w)\<lparr>promise := (\<lambda>i. Pending)(0 := Failed e)\<rparr>"

definition Promise_resolve :: "'w \<Rightarrow> 'w loop" where
  "Promise_resolve w = (idle w)\<lparr>promise := (\<lambda>i. Pending)(0 := Fulfilled)\<rparr>"

definition files_dir :: "('w, 'c) sys \<Rightarrow> jsval \<Rightarrow> path" where
  "files_dir sys job = path_resolve sys
     (''../'' @ ToString (field job ''author'') @ ''/'' @ ToString (field job ''repo'')
        @ ''/'' @ ToString (field job ''branch'') @ ''/files'')"

text \<open>\<^verbatim>\<open>FileSystem.existsSync\<close> is recorded ahead of what the returned promise does.\<close>

definition queried :: "path \<Rightarrow> 'w loop \<Rightarrow> 'w loop" where
  "queried p s = s\<lparr>trace := Query p # trace s\<rparr>"

definition clearWorkspace :: "('w, 'c) sys \<Rightarrow> 'w \<Rightarrow> jsval \<Rightarrow> 'w loop" where
  "clearWorkspace sys w job =
     (if \<not> isValid job False then Promise_reject w (Message ''Invalid Job!'')
      else if \<not> existsSync sys w (files_dir sys job)
        then queried (files_dir sys job) (Promise_resolve w)
        else queried (files_dir sys job) (clearFolder sys w (files_dir sys job)))"

section \<open>A file system to run the program on\<close>

text \<open>
  One instance of the parameters, on which the program can be evaluated. The text of
  a file is a well-formed JSON document, given by the value it denotes, or anything
  else. The file system is a table from absolute paths to entries, and a table of
  faults: an operation listed there fails with the given code and changes nothing.
  The module is taken to be in \<^verbatim>\<open>/srv/src\<close>, and relative paths to have no dot
  segments after the leading one.
\<close>

datatype doc = Json jsval | Garbage string

datatype node = File doc | Directory | Device

datatype op = Read | Write | Stats | Remove | List | RemoveDir

record disk =
  nodes :: "(path \<times> node) list"
  faults :: "((op \<times> path) \<times> string) list"

definition disk_resolve :: "string \<Rightarrow> path" where
  "disk_resolve rel =
     (if take 3 rel = ''../'' then ''/srv/'' @ drop 3 rel else ''/srv/src/'' @ rel)"

definition children :: "disk \<Rightarrow> path \<Rightarrow> string list" where
  "children d p =
     map (\<lambda>q. drop (Suc (length p)) q)
       (filter (\<lambda>q. take (Suc (length p)) q = p @ ''/''
                     \<and> CHR ''/'' \<notin> set (drop (Suc (length p)) q))
          (map fst (nodes d)))"

definition remove_node :: "disk \<Rightarrow> path \<Rightarrow> disk" where
  "remove_node d p = d\<lparr>nodes := filter (\<lambda>(q, n). q \<noteq> p) (nodes d)\<rparr>"

definition disk_exists :: "disk \<Rightarrow> path \<Rightarrow> bool" where
  "disk_exists d p = (map_of (nodes d) p \<noteq> None)"

definition disk_read :: "disk \<Rightarrow> path \<Rightarrow> string + doc" where
  "disk_read d p = (case map_of (faults d) (Read, p) of
      Some e \<Rightarrow> Inl e
    | None \<Rightarrow> (case map_of (nodes d) p of
        None \<Rightarrow> Inl ''ENOENT''
      | Some (File c) \<Rightarrow> Inr c
      | Some n \<Rightarrow> Inl ''EISDIR''))"

definition disk_write :: "disk \<Rightarrow> path \<Rightarrow> doc \<Rightarrow> string option \<times> disk" where
  "disk_write d p c = (case map_of (faults d) (Write, p) of
      Some e \<Rightarrow> (Some e, d)
    | None \<Rightarrow> (case map_of (nodes d) p of
        Some Directory \<Rightarrow> (Some ''EISDIR'', d)
      | _ \<Rightarrow> (None, (remove_node d p)\<lparr>nodes := (p, File c) # nodes (remove_node d p)\<rparr>)))"

definition disk_stat :: "disk \<Rightarrow> path \<Rightarrow> string + kind" where
  "disk_stat d p = (case map_of (faults d) (Stats, p) of
      Some e \<Rightarrow> Inl e
    | None \<Rightarrow> (case map_of (nodes d) p of
        None \<Rightarrow> Inl ''ENOENT''
      | Some (File c) \<Rightarrow> Inr IsFile
      | Some Directory \<Rightarrow> Inr IsDirectory
      | Some Device \<Rightarrow> Inr IsNeither))"

definition disk_unlink :: "disk \<Rightarrow> path \<Rightarrow> string option \<times> disk" where
  "disk_unlink d p = (case map_of (faults d) (Remove, p) of
      Some e \<Rightarrow> (Some e, d)
    | None \<Rightarrow> (case map_of (nodes d) p of
        None \<Rightarrow> (Some ''ENOENT'', d)
      | Some Directory \<Rightarrow> (Some ''EISDIR'', d)
      | Some n \<Rightarrow> (None, remove_node d p)))"

definition disk_readdir :: "disk \<Rightarrow> path \<Rightarrow> string + string list" where
  "disk_readdir d p = (case map_of (faults d) (List, p) of
      Some e \<Rightarrow> Inl e
    | None \<Rightarrow> (case map_of (nodes d) p of
        None \<Rightarrow> Inl ''ENOENT''
      | Some Directory \<Rightarrow> Inr (children d p)
      | Some n \<Rightarrow> Inl ''ENOTDIR''))"

definition disk_rmdir :: "disk \<Rightarrow> path \<Rightarrow> string option \<times> disk" where
  "disk_rmdir d p = (case map_of (faults d) (RemoveDir, p) of
      Some e \<Rightarrow> (Some e, d)
    | None \<Rightarrow> (case map_of (nodes d) p of
        None \<Rightarrow> (Some ''ENOENT'', d)
      | Some Directory \<Rightarrow>
          if children d p = [] then (None, remove_node d p) else (Some ''ENOTEMPTY'', d)
      | Some n \<Rightarrow> (Some ''ENOTDIR'', d)))"

definition doc_parse :: "doc \<Rightarrow> jsval option" where
  "doc_parse c = (case c of Json v \<Rightarrow> Some v | Garbage s \<Rightarrow> None)"

definition node_fs :: "(disk, doc) sys" where
  "node_fs = \<lparr>path_resolve = disk_resolve, existsSync = disk_exists, readFile = disk_read,
     writeFile = disk_write, JSON_parse = doc_parse, JSON_stringify = Json,
     stat = disk_stat, unlink = disk_unlink, readdir = disk_readdir, rmdir = disk_rmdir\<rparr>"

text \<open>The ledger \<^verbatim>\<open>addBuild\<close> starts from: \<open>None\<close> where \<^verbatim>\<open>JSON.parse\<close> throws.\<close>

definition loaded :: "('w, 'c) sys \<Rightarrow> 'w \<Rightarrow> path \<Rightarrow> jsval option" where
  "loaded sys w file =
     (if existsSync sys w file then
        (case readFile sys w file of
           Inr data \<Rightarrow> JSON_parse sys data
         | Inl err \<Rightarrow> Some (Obj ObjectPrototype []))
      else Some (Obj ObjectPrototype []))"

text \<open>Jobs and a commit to evaluate on.\<close>

definition commit_of :: "string \<Rightarrow> jsval" where
  "commit_of sha = Obj ObjectPrototype
     [(''sha'', Str sha), (''date'', Str ''2020-01-01''), (''timestamp'', Num (Integer 1577836800)),
      (''message'', Str ''fix''), (''author'', Str ''dev''), (''avatar'', Str ''a.png'')]"

definition job_of :: "int \<Rightarrow> bool \<Rightarrow> string \<Rightarrow> (string \<times> jsval) list \<Rightarrow> jsval" where
  "job_of i ok sha tags = Obj ObjectPrototype
     [(''author'', Str ''acme''), (''repo'', Str ''app''), (''branch'', Str ''main''),
      (''id'', Num (Integer i)), (''success'', Bool ok), (''commit'', commit_of sha),
      (''license'', Str ''MIT''), (''tags'', Obj ObjectPrototype tags)]"

section \<open>Candidate resolution, in the words of the specification\<close>

text \<open>
  For one record: the first tag, in the iteration order of \<^verbatim>\<open>job.tags\<close>, whose value
  equals the record's \<^verbatim>\<open>sha\<close> wins; it sets \<^verbatim>\<open>candidate\<close> to \<^verbatim>\<open>RELEASE\<close> and \<^verbatim>\<open>tag\<close>
  to the tag name. An entry of the ledger that is not an object stays as it is.
\<close>

definition first_match :: "jsval \<Rightarrow> jsval \<Rightarrow> string option" where
  "first_match tags sha = find (\<lambda>t. strict_eq (field tags t) sha) (for_in_keys tags)"

definition resolve_candidate :: "jsval \<Rightarrow> jsval \<Rightarrow> jsval" where
  "resolve_candidate tags r = (case r of
      Obj q rs \<Rightarrow>
        (case first_match tags (get_own rs ''sha'') of
           None \<Rightarrow> r
         | Some t \<Rightarrow> Obj q (set_own (set_own rs ''candidate'' (Str ''RELEASE'')) ''tag'' (Str t)))
    | _ \<Rightarrow> r)"

text \<open>Two entries that differ at most in \<^verbatim>\<open>candidate\<close> and \<^verbatim>\<open>tag\<close>.\<close>

definition untagged :: "props \<Rightarrow> props" where
  "untagged rs = filter (\<lambda>(k, v). k \<noteq> ''candidate'' \<and> k \<noteq> ''tag'') rs"

definition same_but_tag :: "jsval \<Rightarrow> jsval \<Rightarrow> bool" where
  "same_but_tag r r' = (case r of
      Obj q rs \<Rightarrow> (case r' of Obj q' rs' \<Rightarrow> q' = q \<and> untagged rs' = untagged rs | _ \<Rightarrow> False)
    | _ \<Rightarrow> r' = r)"

text \<open>Every call of a sequence resolves.\<close>

fun all_resolved :: "('w, 'c) sys \<Rightarrow> 'w \<Rightarrow> jsval list \<Rightarrow> bool" where
  "all_resolved sys w [] = True"
| "all_resolved sys w (job # jobs) =
     (result (addBuild sys w job) = Resolved
      \<and> all_resolved sys (after (addBuild sys w job)) jobs)"

section \<open>Validation\<close>

lemma field_Obj [simp]: "field (Obj p ps) k = get_own ps k"
  by (simp add: field_def get_prop_def)

lemma get_own_absent: "k \<notin> fst ` set ps \<Longrightarrow> get_own ps k = Undefined"
  using map_of_eq_None_iff [of ps k] by (simp add: get_own_def)

lemma isValid_iff:
  "isValid job compiled \<longleftrightarrow>
     (\<exists>ps. job = Obj ObjectPrototype ps
        \<and> is_string (get_own ps ''author'')
        \<and> is_string (get_own ps ''repo'')
        \<and> is_string (get_own ps ''branch'')
        \<and> (compiled \<longrightarrow> Number_isInteger (get_own ps ''id'')
                        \<and> typeof (get_own ps ''success'') = ''boolean''))"
  by (cases job) (auto simp: isValid_def truthy_def has_Object_prototype_def split: jsnum.splits)

lemma is_string_cases: "is_string v \<longleftrightarrow> (\<exists>s. v = Str s \<or> v = StringObject s)"
  by (cases v) (auto simp: is_string_def typeof_def instanceof_String_def)

lemma Number_isInteger_cases: "Number_isInteger v \<longleftrightarrow> (\<exists>i. v = Num (Integer i))"
  by (cases v) (auto simp: Number_isInteger_def split: jsnum.splits)

lemma typeof_boolean_cases: "typeof v = ''boolean'' \<longleftrightarrow> (\<exists>b. v = Bool b)"
  by (cases v) (auto simp: typeof_def)

text \<open>
  C7. \<^verbatim>\<open>isValid\<close> is false on \<^verbatim>\<open>undefined\<close> and \<^verbatim>\<open>null\<close>, on the empty record, on
  a job whose \<^verbatim>\<open>branch\<close> is not a string, and on any object whose prototype is not
  \<^verbatim>\<open>Object.prototype\<close>, whatever its fields; with \<^verbatim>\<open>compiled\<close> it is false on a
  record without \<^verbatim>\<open>id\<close>, with an \<^verbatim>\<open>id\<close> that is not an integer, or with a \<^verbatim>\<open>success\<close>
  that is not a boolean. Where it is true, every applicable check has passed.
\<close>

theorem isValid_rejects:
  "\<not> isValid Undefined compiled
   \<and> \<not> isValid Null compiled
   \<and> \<not> isValid (Obj ObjectPrototype []) compiled
   \<and> (\<not> is_string (field jobA ''branch'') \<longrightarrow> \<not> isValid jobA compiled)
   \<and> (p \<noteq> ObjectPrototype \<longrightarrow> \<not> isValid (Obj p ps) compiled)
   \<and> (''id'' \<notin> fst ` set psB \<longrightarrow> \<not> isValid (Obj ObjectPrototype psB) True)
   \<and> (\<not> Number_isInteger (field jobC ''id'') \<longrightarrow> \<not> isValid jobC True)
   \<and> (typeof (field jobD ''success'') \<noteq> ''boolean'' \<longrightarrow> \<not> isValid jobD True)
   \<and> (isValid jobE compiled \<longrightarrow>
         truthy jobE \<and> has_Object_prototype jobE
         \<and> is_string (field jobE ''author'') \<and> is_string (field jobE ''repo'')
         \<and> is_string (field jobE ''branch'')
         \<and> (compiled \<longrightarrow> Number_isInteger (field jobE ''id'')
                         \<and> typeof (field jobE ''success'') = ''boolean''))"
proof -
  have "\<not> isValid Undefined compiled" "\<not> isValid Null compiled"
    by (simp_all add: isValid_iff)
  moreover have "\<not> isValid (Obj ObjectPrototype []) compiled"
    by (simp add: isValid_iff get_own_def is_string_def typeof_def instanceof_String_def)
  moreover have "\<not> is_string (field jobA ''branch'') \<longrightarrow> \<not> isValid jobA compiled"
    by (auto simp: isValid_iff)
  moreover have "p \<noteq> ObjectPrototype \<longrightarrow> \<not> isValid (Obj p ps) compiled"
    by (simp add: isValid_iff)
  moreover have "''id'' \<notin> fst ` set psB \<longrightarrow> \<not> isValid (Obj ObjectPrototype psB) True"
    by (simp add: isValid_iff get_own_absent Number_isInteger_def)
  moreover have "\<not> Number_isInteger (field jobC ''id'') \<longrightarrow> \<not> isValid jobC True"
    by (auto simp: isValid_iff)
  moreover have "typeof (field jobD ''success'') \<noteq> ''boolean'' \<longrightarrow> \<not> isValid jobD True"
    by (auto simp: isValid_iff)
  moreover have "isValid jobE compiled \<longrightarrow>
         truthy jobE \<and> has_Object_prototype jobE
         \<and> is_string (field jobE ''author'') \<and> is_string (field jobE ''repo'')
         \<and> is_string (field jobE ''branch'')
         \<and> (compiled \<longrightarrow> Number_isInteger (field jobE ''id'')
                         \<and> typeof (field jobE ''success'') = ''boolean'')"
    by (auto simp: isValid_iff truthy_def has_Object_prototype_def)
  ultimately show ?thesis by blast
qed

theorem isValid_rejects_witness:
  "\<not> isValid (Obj ObjectPrototype
        [(''author'', Str ''acme''), (''repo'', Str ''app''), (''branch'', Num (Integer 7))]) True
   \<and> \<not> isValid (Obj OtherPrototype
        [(''author'', Str ''acme''), (''repo'', Str ''app''), (''branch'', Str ''main''),
         (''id'', Num (Integer 1)), (''success'', Bool True)]) True
   \<and> \<not> isValid (Obj ObjectPrototype
        [(''author'', Str ''acme''), (''repo'', Str ''app''), (''branch'', Str ''main''),
         (''success'', Bool True)]) True
   \<and> \<not> isValid (Obj ObjectPrototype
        [(''author'', Str ''acme''), (''repo'', Str ''app''), (''branch'', Str ''main''),
         (''id'', Num (NonInteger ''1.5'')), (''success'', Bool True)]) True
   \<and> \<not> isValid (Obj ObjectPrototype
        [(''author'', Str ''acme''), (''repo'', Str ''app''), (''branch'', Str ''main''),
         (''id'', Num (Integer 1)), (''success'', Str ''yes'')]) True
   \<and> isValid (Obj ObjectPrototype
        [(''author'', Str ''acme''), (''repo'', Str ''app''), (''branch'', Str ''main''),
         (''id'', Num (Integer 1)), (''success'', Bool True)]) True"
  using isValid_rejects [where compiled = True and p = OtherPrototype
      and jobA = "Obj ObjectPrototype
        [(''author'', Str ''acme''), (''repo'', Str ''app''), (''branch'', Num (Integer 7))]"
      and ps = "[(''author'', Str ''acme''), (''repo'', Str ''app''), (''branch'', Str ''main''),
         (''id'', Num (Integer 1)), (''success'', Bool True)]"
      and psB = "[(''author'', Str ''acme''), (''repo'', Str ''app''), (''branch'', Str ''main''),
         (''success'', Bool True)]"
      and jobC = "Obj ObjectPrototype
        [(''author'', Str ''acme''), (''repo'', Str ''app''), (''branch'', Str ''main''),
         (''id'', Num (NonInteger ''1.5'')), (''success'', Bool True)]"
      and jobD = "Obj ObjectPrototype
        [(''author'', Str ''acme''), (''repo'', Str ''app''), (''branch'', Str ''main''),
         (''id'', Num (Integer 1)), (''success'', Str ''yes'')]"
      and jobE = "Obj ObjectPrototype
        [(''author'', Str ''acme''), (''repo'', Str ''app''), (''branch'', Str ''main''),
         (''id'', Num (Integer 1)), (''success'', Bool True)]"]
  by (simp add: isValid_iff get_own_def is_string_def typeof_def instanceof_String_def
        Number_isInteger_def)

text \<open>
  C10. A plain record whose \<^verbatim>\<open>author\<close>, \<^verbatim>\<open>repo\<close> and \<^verbatim>\<open>branch\<close> are strings is
  valid, also when the strings are empty; with \<^verbatim>\<open>compiled\<close> it is valid for every
  integer \<^verbatim>\<open>id\<close>, zero and the negative ones included, and boolean \<^verbatim>\<open>success\<close>.
\<close>

theorem isValid_unchecked:
  "isValid (Obj ObjectPrototype
      [(''author'', Str []), (''repo'', Str []), (''branch'', Str [])]) False
   \<and> isValid (Obj ObjectPrototype
      [(''author'', Str []), (''repo'', Str []), (''branch'', Str []),
       (''id'', Num (Integer 0)), (''success'', Bool sz)]) True
   \<and> isValid (Obj ObjectPrototype
      [(''author'', Str []), (''repo'', Str []), (''branch'', Str []),
       (''id'', Num (Integer (- 1))), (''success'', Bool sz)]) True
   \<and> (get_own ps ''author'' = Str a \<and> get_own ps ''repo'' = Str r
        \<and> get_own ps ''branch'' = Str b
      \<longrightarrow> isValid (Obj ObjectPrototype ps) False
        \<and> (get_own ps ''id'' = Num (Integer i) \<and> get_own ps ''success'' = Bool s
           \<longrightarrow> isValid (Obj ObjectPrototype ps) True))"
  by (simp add: isValid_iff is_string_def typeof_def get_own_def Number_isInteger_def)

theorem isValid_unchecked_witness:
  "isValid (Obj ObjectPrototype
      [(''branch'', Str []), (''repo'', Str []), (''author'', Str []),
       (''success'', Bool False), (''id'', Num (Integer (- 5)))]) False
   \<and> isValid (Obj ObjectPrototype
      [(''branch'', Str []), (''repo'', Str []), (''author'', Str []),
       (''success'', Bool False), (''id'', Num (Integer (- 5)))]) True"
  using isValid_unchecked [where a = "[]" and r = "[]" and b = "[]" and i = "- 5"
      and s = False
      and ps = "[(''branch'', Str []), (''repo'', Str []), (''author'', Str []),
       (''success'', Bool False), (''id'', Num (Integer (- 5)))]"]
  by (simp add: get_own_def)

section \<open>Invalid jobs\<close>

lemma run_idle: "pending s = [] \<Longrightarrow> run sys s ks = s"
  by (induction ks) (simp_all add: run_def step_def)

lemma not_isValid_Null: "\<not> isValid Null compiled"
  by (simp add: isValid_def truthy_def)

text \<open>
  C6. A job that fails validation is rejected before anything else happens.
  \<^verbatim>\<open>addBuild\<close> rejects with \<^verbatim>\<open>"Invalid Job"\<close>, has made no file system call and leaves
  the file system as it was. \<^verbatim>\<open>clearWorkspace\<close> returns a promise already rejected
  with \<^verbatim>\<open>"Invalid Job!"\<close>: no call was made, none is in flight, the file system is as
  it was, and nothing happens later.
\<close>

theorem invalid_job_no_effect:
  "(\<not> isValid job True \<longrightarrow>
       addBuild sys w job
         = \<lparr>result = Rejected (Message ''Invalid Job''), after = w, calls = []\<rparr>)
   \<and> (\<not> isValid job' False \<longrightarrow>
       promise (clearWorkspace sys w job') 0 = Failed (Message ''Invalid Job!'')
       \<and> world (clearWorkspace sys w job') = w
       \<and> pending (clearWorkspace sys w job') = []
       \<and> trace (clearWorkspace sys w job') = []
       \<and> (\<forall>ks. run sys (clearWorkspace sys w job') ks = clearWorkspace sys w job'))"
  by (simp add: addBuild_def clearWorkspace_def Promise_reject_def idle_def run_idle)

theorem invalid_job_no_effect_witness:
  "addBuild node_fs \<lparr>nodes = [], faults = []\<rparr> Null
     = \<lparr>result = Rejected (Message ''Invalid Job''),
        after = \<lparr>nodes = [], faults = []\<rparr>, calls = []\<rparr>
   \<and> promise (clearWorkspace node_fs \<lparr>nodes = [], faults = []\<rparr> Null) 0
       = Failed (Message ''Invalid Job!'')
   \<and> trace (clearWorkspace node_fs \<lparr>nodes = [], faults = []\<rparr> Null) = []"
  using invalid_job_no_effect [of Null node_fs "\<lparr>nodes = [], faults = []\<rparr>" Null]
  by (simp add: not_isValid_Null)

section \<open>clearWorkspace on a valid job\<close>

lemma ToString_is_string:
  "is_string v \<Longrightarrow> \<exists>s. (v = Str s \<or> v = StringObject s) \<and> ToString v = s"
  by (auto simp: is_string_cases ToString_def)

text \<open>
  C8. For a job that passes validation without \<^verbatim>\<open>compiled\<close>, the directory is
  resolved from \<^verbatim>\<open>../author/repo/branch/files\<close>, with the strings of the job. If it
  does not exist the returned promise is already fulfilled: the only call made is the
  query, nothing is in flight, the file system is as it was and nothing happens later.
  If it exists, what is returned is \<^verbatim>\<open>clearFolder\<close> on that very path.
\<close>

theorem clearWorkspace_valid:
  assumes "isValid job False"
  shows "(\<exists>a r b. (field job ''author'' = Str a \<or> field job ''author'' = StringObject a)
            \<and> (field job ''repo'' = Str r \<or> field job ''repo'' = StringObject r)
            \<and> (field job ''branch'' = Str b \<or> field job ''branch'' = StringObject b)
            \<and> files_dir sys job
                = path_resolve sys (''../'' @ a @ ''/'' @ r @ ''/'' @ b @ ''/files''))
     \<and> (\<not> existsSync sys w (files_dir sys job) \<longrightarrow>
           promise (clearWorkspace sys w job) 0 = Fulfilled
           \<and> world (clearWorkspace sys w job) = w
           \<and> pending (clearWorkspace sys w job) = []
           \<and> trace (clearWorkspace sys w job) = [Query (files_dir sys job)]
           \<and> (\<forall>ks. run sys (clearWorkspace sys w job) ks = clearWorkspace sys w job))
     \<and> (existsSync sys w (files_dir sys job) \<longrightarrow>
           clearWorkspace sys w job
             = queried (files_dir sys job) (clearFolder sys w (files_dir sys job))
           \<and> pending (clearWorkspace sys w job) = [(0, Stat (files_dir sys job))]
           \<and> trace (clearWorkspace sys w job)
               = [Query (files_dir sys job), Call 0 (Stat (files_dir sys job))])"
proof -
  from assms obtain ps where job: "job = Obj ObjectPrototype ps"
    and a: "is_string (get_own ps ''author'')"
    and r: "is_string (get_own ps ''repo'')"
    and b: "is_string (get_own ps ''branch'')"
    by (auto simp: isValid_iff)
  have "\<exists>a r b. (field job ''author'' = Str a \<or> field job ''author'' = StringObject a)
            \<and> (field job ''repo'' = Str r \<or> field job ''repo'' = StringObject r)
            \<and> (field job ''branch'' = Str b \<or> field job ''branch'' = StringObject b)
            \<and> files_dir sys job
                = path_resolve sys (''../'' @ a @ ''/'' @ r @ ''/'' @ b @ ''/files'')"
    using ToString_is_string [OF a] ToString_is_string [OF r] ToString_is_string [OF b]
    unfolding files_dir_def job field_Obj by metis
  moreover have "\<not> existsSync sys w (files_dir sys job) \<longrightarrow>
           promise (clearWorkspace sys w job) 0 = Fulfilled
           \<and> world (clearWorkspace sys w job) = w
           \<and> pending (clearWorkspace sys w job) = []
           \<and> trace (clearWorkspace sys w job) = [Query (files_dir sys job)]
           \<and> (\<forall>ks. run sys (clearWorkspace sys w job) ks = clearWorkspace sys w job)"
    using assms
    by (simp add: clearWorkspace_def Promise_resolve_def idle_def queried_def run_idle)
  moreover have "existsSync sys w (files_dir sys job) \<longrightarrow>
           clearWorkspace sys w job
             = queried (files_dir sys job) (clearFolder sys w (files_dir sys job))
           \<and> pending (clearWorkspace sys w job) = [(0, Stat (files_dir sys job))]
           \<and> trace (clearWorkspace sys w job)
               = [Query (files_dir sys job), Call 0 (Stat (files_dir sys job))]"
    using assms
    by (simp add: clearWorkspace_def clearFolder_def issue_def idle_def queried_def)
  ultimately show ?thesis by blast
qed

theorem clearWorkspace_valid_witness:
  "isValid (job_of 2 True ''abc'' []) False
   \<and> files_dir node_fs (job_of 2 True ''abc'' []) = ''/srv/acme/app/main/files''
   \<and> promise (clearWorkspace node_fs \<lparr>nodes = [], faults = []\<rparr> (job_of 2 True ''abc'' [])) 0
       = Fulfilled
   \<and> trace (clearWorkspace node_fs \<lparr>nodes = [], faults = []\<rparr> (job_of 2 True ''abc'' []))
       = [Query ''/srv/acme/app/main/files'']
   \<and> pending (clearWorkspace node_fs
         \<lparr>nodes = [(''/srv/acme/app/main/files'', Directory)], faults = []\<rparr>
         (job_of 2 True ''abc'' []))
       = [(0, Stat ''/srv/acme/app/main/files'')]"
proof -
  have v: "isValid (job_of 2 True ''abc'' []) False"
    by (simp add: isValid_iff job_of_def get_own_def is_string_def typeof_def)
  have d: "files_dir node_fs (job_of 2 True ''abc'' []) = ''/srv/acme/app/main/files''"
    by (simp add: files_dir_def job_of_def get_own_def ToString_def node_fs_def
          disk_resolve_def)
  have e1: "\<not> existsSync node_fs \<lparr>nodes = [], faults = []\<rparr> ''/srv/acme/app/main/files''"
    by (simp add: node_fs_def disk_exists_def)
  have e2: "existsSync node_fs
      \<lparr>nodes = [(''/srv/acme/app/main/files'', Directory)], faults = []\<rparr>
      ''/srv/acme/app/main/files''"
    by (simp add: node_fs_def disk_exists_def)
  show ?thesis
    using clearWorkspace_valid [OF v, of node_fs "\<lparr>nodes = [], faults = []\<rparr>"]
      clearWorkspace_valid [OF v, of node_fs
        "\<lparr>nodes = [(''/srv/acme/app/main/files'', Directory)], faults = []\<rparr>"]
    by (simp add: v d e1 e2 queried_def clearFolder_def issue_def idle_def)
qed

section \<open>Property lists, tags and decimal keys\<close>

lemma map_of_update_own:
  "map_of (update_own k x ps) = (if map_of ps k = None then map_of ps else (map_of ps)(k \<mapsto> x))"
  by (induction ps) (auto simp: fun_eq_iff)

lemma map_of_insert_index: "map_of (insert_index k x ps) = (map_of ps)(k \<mapsto> x)"
  by (induction ps) (auto simp: fun_eq_iff)

lemma map_of_set_own: "map_of (set_own ps k x) = (map_of ps)(k \<mapsto> x)"
proof (cases "k \<in> fst ` set ps")
  case True
  then obtain y where "map_of ps k = Some y"
    by (metis map_of_eq_None_iff not_None_eq)
  with True show ?thesis by (simp add: set_own_def map_of_update_own)
next
  case False
  then have "map_of ps k = None" by (simp add: map_of_eq_None_iff)
  with False show ?thesis
    by (auto simp: set_own_def map_of_insert_index fun_eq_iff map_add_def split: option.splits)
qed

lemma get_own_set_own: "get_own (set_own ps k x) k' = (if k' = k then x else get_own ps k')"
  by (simp add: get_own_def map_of_set_own)

lemma get_own_update_own:
  "get_own (update_own k x ps) k' = (if k' = k \<and> k \<in> fst ` set ps then x else get_own ps k')"
proof (cases "k \<in> fst ` set ps")
  case True
  then obtain y where "map_of ps k = Some y"
    by (metis map_of_eq_None_iff not_None_eq)
  with True show ?thesis by (simp add: get_own_def map_of_update_own)
next
  case False
  then have "map_of ps k = None" by (simp add: map_of_eq_None_iff)
  with False show ?thesis by (simp add: get_own_def map_of_update_own)
qed

lemma keys_update_own: "map fst (update_own k x ps) = map fst ps"
  by (induction ps) auto

lemma set_insert_index: "set (insert_index k x ps) = insert (k, x) (set ps)"
  by (induction ps) (auto split: if_splits)

lemma keys_set_own: "fst ` set (set_own ps k x) = insert k (fst ` set ps)"
proof -
  have "fst ` set (update_own k x ps) = fst ` set ps"
    using keys_update_own [of k x ps] by (metis set_map)
  then show ?thesis
    by (simp add: set_own_def set_insert_index insert_absorb)
qed

lemma update_own_same: "map_of ps k = Some x \<Longrightarrow> update_own k x ps = ps"
  by (induction ps) (auto split: if_splits)

lemma set_own_same: "map_of ps k = Some x \<Longrightarrow> set_own ps k x = ps"
proof -
  assume a: "map_of ps k = Some x"
  then have "k \<in> fst ` set ps" by (metis map_of_eq_None_iff option.distinct(1))
  with a show ?thesis by (simp add: set_own_def update_own_same)
qed

lemma filter_update_own:
  "\<not> P k \<Longrightarrow> filter (\<lambda>(k', v). P k') (update_own k x ps) = filter (\<lambda>(k', v). P k') ps"
  by (induction ps) auto

lemma filter_insert_index:
  "\<not> P k \<Longrightarrow> filter (\<lambda>(k', v). P k') (insert_index k x ps) = filter (\<lambda>(k', v). P k') ps"
  by (induction ps) auto

lemma filter_set_own:
  "\<not> P k \<Longrightarrow> filter (\<lambda>(k', v). P k') (set_own ps k x) = filter (\<lambda>(k', v). P k') ps"
  by (simp add: set_own_def filter_update_own filter_insert_index)

lemma untagged_set_own:
  "k = ''candidate'' \<or> k = ''tag'' \<Longrightarrow> untagged (set_own ps k x) = untagged ps"
  unfolding untagged_def by (rule filter_set_own) auto

lemma scan_tags_Obj:
  "scan_tags tags ts (Obj q rs) =
     Some (case find (\<lambda>t. strict_eq (field tags t) (get_own rs ''sha'')) ts of
        None \<Rightarrow> Obj q rs
      | Some t \<Rightarrow> Obj q (set_own (set_own rs ''candidate'' (Str ''RELEASE'')) ''tag'' (Str t)))"
  by (induction ts) (simp_all add: get_prop_def set_prop_def)

lemma scan_tags_prim:
  "r \<noteq> Undefined \<Longrightarrow> r \<noteq> Null \<Longrightarrow> (\<And>q rs. r \<noteq> Obj q rs) \<Longrightarrow> scan_tags tags ts r = Some r"
proof (induction ts)
  case Nil
  show ?case by simp
next
  case (Cons t ts)
  then show ?case by (cases r) (auto simp: get_prop_def set_prop_def)
qed

lemma scan_tags_none:
  "r = Undefined \<or> r = Null \<Longrightarrow> scan_tags tags ts r = (if ts = [] then Some r else None)"
  by (cases ts) (auto simp: get_prop_def)

lemma scan_tags_eq:
  "scan_tags tags (for_in_keys tags) r =
     (if (r = Undefined \<or> r = Null) \<and> for_in_keys tags \<noteq> [] then None
      else Some (resolve_candidate tags r))"
  by (cases r) (simp_all add: scan_tags_Obj scan_tags_prim scan_tags_none resolve_candidate_def
      first_match_def)

lemma resolve_candidate_idem:
  "resolve_candidate tags (resolve_candidate tags r) = resolve_candidate tags r"
proof (cases r)
  case (Obj q rs)
  show ?thesis
  proof (cases "first_match tags (get_own rs ''sha'')")
    case None
    with Obj show ?thesis by (simp add: resolve_candidate_def)
  next
    case (Some t)
    let ?rs = "set_own (set_own rs ''candidate'' (Str ''RELEASE'')) ''tag'' (Str t)"
    have sha: "get_own ?rs ''sha'' = get_own rs ''sha''"
      by (simp add: get_own_set_own)
    have "set_own ?rs ''candidate'' (Str ''RELEASE'') = ?rs"
      by (rule set_own_same) (simp add: map_of_set_own)
    moreover have "set_own ?rs ''tag'' (Str t) = ?rs"
      by (rule set_own_same) (simp add: map_of_set_own)
    ultimately show ?thesis
      using Obj Some sha by (simp add: resolve_candidate_def)
  qed
qed (simp_all add: resolve_candidate_def)

lemma same_but_tag_refl: "same_but_tag r r"
  by (cases r) (simp_all add: same_but_tag_def)

lemma same_but_tag_Obj:
  "same_but_tag (Obj q rs) r' \<longleftrightarrow> (\<exists>rs'. r' = Obj q rs' \<and> untagged rs' = untagged rs)"
  by (cases r') (auto simp: same_but_tag_def)

lemma same_but_tag_prim: "(\<And>q rs. r \<noteq> Obj q rs) \<Longrightarrow> same_but_tag r r' \<longleftrightarrow> r' = r"
  by (cases r) (auto simp: same_but_tag_def)

lemma same_but_tag_trans: "same_but_tag a b \<Longrightarrow> same_but_tag b c \<Longrightarrow> same_but_tag a c"
proof (cases "\<exists>q rs. a = Obj q rs")
  case True
  assume "same_but_tag a b" "same_but_tag b c"
  with True show ?thesis by (auto simp: same_but_tag_Obj)
next
  case False
  assume "same_but_tag a b" "same_but_tag b c"
  with False show ?thesis by (simp add: same_but_tag_prim)
qed

lemma same_but_tag_resolve: "same_but_tag r (resolve_candidate tags r)"
  by (cases r) (simp_all add: same_but_tag_def resolve_candidate_def untagged_set_own
      split: option.splits)

lemma of_char_digit: "d < 10 \<Longrightarrow> of_char (digit d) = 48 + d"
proof -
  assume "d < 10"
  then have "d \<in> {0, 1, 2, 3, 4, 5, 6, 7, 8, 9}" by auto
  then show ?thesis by (auto simp: digit_def)
qed

lemma read_nat_snoc: "read_nat (s @ [c]) = 10 * read_nat s + digit_val c"
  by (simp add: read_nat_def)

lemma read_show_nat: "read_nat (show_nat n) = n"
proof (induction n rule: show_nat.induct)
  case (1 n)
  show ?case
  proof (cases "n < 10")
    case True
    then show ?thesis
      by (subst show_nat.simps) (simp add: read_nat_def digit_val_def of_char_digit)
  next
    case False
    with 1 show ?thesis
      by (subst show_nat.simps) (simp add: read_nat_snoc digit_val_def of_char_digit)
  qed
qed

lemma show_nat_inj: "show_nat m = show_nat n \<Longrightarrow> m = n"
  by (metis read_show_nat)

lemma show_nat_digits: "c \<in> set (show_nat n) \<Longrightarrow> \<exists>d<10. c = digit d"
proof (induction n rule: show_nat.induct)
  case (1 n)
  show ?case
  proof (cases "n < 10")
    case True
    with 1(2) show ?thesis by (subst (asm) show_nat.simps) auto
  next
    case False
    with 1 show ?thesis
      by (subst (asm) (2) show_nat.simps) (auto intro: exI [of _ "n mod 10"])
  qed
qed

lemma show_nat_chars: "c \<in> set (show_nat n) \<Longrightarrow> 48 \<le> (of_char c :: nat) \<and> (of_char c :: nat) < 58"
  using show_nat_digits [of c n] by (auto simp: of_char_digit)

lemma show_nat_nonempty: "show_nat n \<noteq> []"
  by (subst show_nat.simps) simp

lemma show_int_inj: "show_int i = show_int j \<Longrightarrow> i = j"
proof -
  have neg: "CHR ''-'' # s \<noteq> show_nat n" for s n
  proof
    assume "CHR ''-'' # s = show_nat n"
    then have "CHR ''-'' \<in> set (show_nat n)" by (metis list.set_intros(1))
    from show_nat_chars [OF this] show False by simp
  qed
  assume "show_int i = show_int j"
  then show ?thesis
    using neg [of "show_nat (nat (- i))" "nat j"] neg [of "show_nat (nat (- j))" "nat i"]
    by (auto simp: show_int_def split: if_splits dest!: show_nat_inj) 
qed

lemma show_int_chars:
  "c \<in> set (show_int i) \<Longrightarrow> c = CHR ''-'' \<or> (48 \<le> (of_char c :: nat) \<and> (of_char c :: nat) < 58)"
  using show_nat_chars by (auto simp: show_int_def split: if_splits)

lemma show_int_not_pointer: "show_int i \<noteq> ''latest''" "show_int i \<noteq> ''last_successful''"
proof -
  have "CHR ''l'' \<notin> set (show_int i)"
    using show_int_chars [of "CHR ''l''" i] by auto
  then show "show_int i \<noteq> ''latest''" "show_int i \<noteq> ''last_successful''"
    by auto
qed

lemma resolve_candidate_prim [simp]:
  "resolve_candidate tags Undefined = Undefined"
  "resolve_candidate tags Null = Null"
  "resolve_candidate tags (Bool x) = Bool x"
  "resolve_candidate tags (Num n) = Num n"
  "resolve_candidate tags (Str s) = Str s"
  "resolve_candidate tags (StringObject s) = StringObject s"
  by (simp_all add: resolve_candidate_def)

lemma apply_tags_Obj:
  "apply_tags tags ks (Obj p ps) = Some b \<Longrightarrow> set ks \<subseteq> fst ` set ps \<Longrightarrow>
     \<exists>ps'. b = Obj p ps' \<and> map fst ps' = map fst ps \<and>
        (\<forall>k. get_own ps' k
           = (if k \<in> set ks then resolve_candidate tags (get_own ps k) else get_own ps k))"
proof (induction ks arbitrary: ps)
  case Nil
  then show ?case by auto
next
  case (Cons k ks)
  let ?r = "resolve_candidate tags (get_own ps k)"
  from Cons.prems(1)
  have step: "apply_tags tags ks (Obj p (update_own k ?r ps)) = Some b"
    by (auto simp: scan_tags_eq put_back_def split: option.splits if_splits)
  have k: "k \<in> fst ` set ps" and ks: "set ks \<subseteq> fst ` set (update_own k ?r ps)"
    using Cons.prems(2) keys_update_own [of k ?r ps] by (auto simp flip: set_map)
  from Cons.IH [OF step ks] obtain ps' where
    b: "b = Obj p ps'" and keys: "map fst ps' = map fst (update_own k ?r ps)" and
    get: "\<forall>k'. get_own ps' k'
           = (if k' \<in> set ks then resolve_candidate tags (get_own (update_own k ?r ps) k')
              else get_own (update_own k ?r ps) k')"
    by blast
  have "\<forall>k'. get_own ps' k'
           = (if k' \<in> set (k # ks) then resolve_candidate tags (get_own ps k')
              else get_own ps k')"
    using get k by (auto simp: get_own_update_own resolve_candidate_idem)
  with b keys show ?case by (simp add: keys_update_own)
qed

lemma ToString_Integer: "ToString (Num (Integer i)) = show_int i"
  by (simp add: ToString_def Number_toString_def)

lemma appended_Obj:
  assumes "isValid job True" and "appended (Obj p ps) job = Inr b"
  shows "\<exists>i r ps'. field job ''id'' = Num (Integer i) \<and> build_record job = Some r
      \<and> b = Obj p ps'
      \<and> fst ` set ps' = insert (show_int i) (insert ''latest'' (fst ` set ps))
            \<union> (if truthy (field job ''success'') then {''last_successful''} else {})
      \<and> (\<forall>k. get_own ps' k = resolve_candidate (field job ''tags'')
            (if k = ''latest'' then Num (Integer i)
             else if k = ''last_successful'' \<and> truthy (field job ''success'')
               then Num (Integer i)
             else if k = show_int i then r
             else get_own ps k))"
proof -
  from assms(1) obtain i where i: "field job ''id'' = Num (Integer i)"
    by (auto simp: isValid_iff Number_isInteger_cases)
  from assms(2) obtain r where r: "build_record job = Some r"
    by (auto simp: appended_def split: option.splits)
  define ps1 where "ps1 = set_own ps (show_int i) r"
  define ps2 where "ps2 = (if truthy (field job ''success'')
     then set_own ps1 ''last_successful'' (Num (Integer i)) else ps1)"
  define ps3 where "ps3 = set_own ps2 ''latest'' (Num (Integer i))"
  have tags: "apply_tags (field job ''tags'') (map fst ps3) (Obj p ps3) = Some b"
    using assms(2) r i
    by (auto simp: appended_def set_prop_def for_in_keys_def ToString_Integer
        ps1_def ps2_def ps3_def split: option.splits if_splits)
  from apply_tags_Obj [OF tags] obtain ps' where
    b: "b = Obj p ps'" and keys: "map fst ps' = map fst ps3" and
    get: "\<forall>k. get_own ps' k = (if k \<in> set (map fst ps3)
            then resolve_candidate (field job ''tags'') (get_own ps3 k) else get_own ps3 k)"
    by auto
  have get': "get_own ps' k = resolve_candidate (field job ''tags'') (get_own ps3 k)" for k
  proof (cases "k \<in> fst ` set ps3")
    case True
    with get show ?thesis by simp
  next
    case False
    with get show ?thesis by (simp add: get_own_absent)
  qed
  have "fst ` set ps' = fst ` set ps3"
    using keys by (metis set_map)
  then have "fst ` set ps' = insert (show_int i) (insert ''latest'' (fst ` set ps))
            \<union> (if truthy (field job ''success'') then {''last_successful''} else {})"
    by (auto simp: ps3_def ps2_def ps1_def keys_set_own)
  moreover have "get_own ps3 k = (if k = ''latest'' then Num (Integer i)
             else if k = ''last_successful'' \<and> truthy (field job ''success'')
               then Num (Integer i)
             else if k = show_int i then r
             else get_own ps k)" for k
    by (simp add: ps3_def ps2_def ps1_def get_own_set_own)
  ultimately show ?thesis
    using i r b get' by simp
qed

lemma addBuild_valid:
  assumes "isValid job True"
  shows "addBuild sys w job =
    (let file = ledger_file sys job;
         made = (if existsSync sys w file then [ExistsSync file, ReadFile file]
                 else [ExistsSync file])
     in case loaded sys w file of
          None \<Rightarrow> \<lparr>result = NeverSettled SyntaxError, after = w, calls = made\<rparr>
        | Some builds \<Rightarrow>
            (case append sys w file made builds job of
               Inl e \<Rightarrow> \<lparr>result = (if existsSync sys w file then NeverSettled e
                                    else Rejected e), after = w, calls = made\<rparr>
             | Inr r \<Rightarrow> r))"
  using assms
  by (simp add: addBuild_def loaded_def Let_def split: sum.splits option.splits)

lemma append_Inr:
  "appended builds job = Inr b \<Longrightarrow>
   append sys w file made builds job =
     Inr \<lparr>result = (case fst (writeFile sys w file (JSON_stringify sys b)) of
                      None \<Rightarrow> Resolved | Some e \<Rightarrow> Rejected (IOError e)),
          after = snd (writeFile sys w file (JSON_stringify sys b)),
          calls = made @ [WriteFile file (JSON_stringify sys b)]\<rparr>"
  by (simp add: append_def Let_def split: prod.splits)

lemma append_Inl: "appended builds job = Inl e \<Longrightarrow> append sys w file made builds job = Inl e"
  by (simp add: append_def)

lemmas js_eval = show_int_def show_nat.simps digit_def is_array_index_def read_nat_def
  digit_val_def appended_def build_record_def job_of_def commit_of_def get_own_def
  get_prop_def field_def set_prop_def set_own_def ToString_def Number_toString_def
  truthy_def for_in_keys_def put_back_def is_string_def typeof_def
  Number_isInteger_def instanceof_String_def has_Object_prototype_def isValid_def
  strict_eq_def primitive_def

lemmas fs_eval = ledger_file_def files_dir_def node_fs_def disk_resolve_def disk_exists_def
  disk_read_def disk_write_def disk_stat_def disk_unlink_def disk_readdir_def disk_rmdir_def
  doc_parse_def loaded_def remove_node_def children_def

end
